theory Spec2Isabelle
  imports Main "HOL-Library.Sublist"
begin

section \<open>Python values and string operations\<close>

text \<open>
  The source descriptor \<open>meta\<close> is an untyped Python dict produced by the recipe parser.
  Its values are modelled by the three shapes the code distinguishes: \<open>None\<close>, a string,
  and a list of strings.  Truthiness is Python's: \<open>None\<close>, the empty string and the empty
  list are falsy.
\<close>

datatype pyval = PNone | PStr string | PList "string list"

fun truthy :: "pyval \<Rightarrow> bool" where
  "truthy PNone = False"
| "truthy (PStr s) = (s \<noteq> [])"
| "truthy (PList xs) = (xs \<noteq> [])"

type_synonym meta = "string \<rightharpoonup> pyval"

text \<open>\<open>meta.get(k)\<close>: the value, or \<open>None\<close> when the key is absent.\<close>

definition meta_get :: "meta \<Rightarrow> string \<Rightarrow> pyval" where
  "meta_get m k = (case m k of None \<Rightarrow> PNone | Some v \<Rightarrow> v)"

text \<open>Python's \<open>a or b\<close>.\<close>

definition py_or :: "pyval \<Rightarrow> pyval \<Rightarrow> pyval" where
  "py_or a b = (if truthy a then a else b)"

text \<open>
  \<open>str.lower()\<close> and \<open>str.upper()\<close> on the ASCII letters; every other character is left
  as it is (strings are byte strings here).
\<close>

definition lower_char :: "char \<Rightarrow> char" where
  "lower_char c =
     (case map_of (zip ''ABCDEFGHIJKLMNOPQRSTUVWXYZ'' ''abcdefghijklmnopqrstuvwxyz'') c of
        None \<Rightarrow> c | Some d \<Rightarrow> d)"

definition upper_char :: "char \<Rightarrow> char" where
  "upper_char c =
     (case map_of (zip ''abcdefghijklmnopqrstuvwxyz'' ''ABCDEFGHIJKLMNOPQRSTUVWXYZ'') c of
        None \<Rightarrow> c | Some d \<Rightarrow> d)"

definition lower :: "string \<Rightarrow> string" where
  "lower s = map lower_char s"

definition upper :: "string \<Rightarrow> string" where
  "upper s = map upper_char s"

text \<open>\<open>s.startswith(p)\<close> and \<open>s.endswith(p)\<close>.\<close>

definition startswith :: "string \<Rightarrow> string \<Rightarrow> bool" where
  "startswith s p = (take (length p) s = p)"

definition endswith :: "string \<Rightarrow> string \<Rightarrow> bool" where
  "endswith s p = (length p \<le> length s \<and> drop (length s - length p) s = p)"

text \<open>\<open>s.split(c)\<close> for a one-character separator, and \<open>s.split(c, 1)\<close>.\<close>

fun split_on :: "char \<Rightarrow> string \<Rightarrow> string list" where
  "split_on c [] = [[]]"
| "split_on c (x # xs) =
     (if x = c then [] # split_on c xs
      else (case split_on c xs of [] \<Rightarrow> [[x]] | h # t \<Rightarrow> (x # h) # t))"

fun split_on1 :: "char \<Rightarrow> string \<Rightarrow> string list" where
  "split_on1 c [] = [[]]"
| "split_on1 c (x # xs) =
     (if x = c then [[], xs]
      else (case split_on1 c xs of [] \<Rightarrow> [[x]] | h # t \<Rightarrow> (x # h) # t))"

text \<open>\<open>s.replace(c, d)\<close> for one-character \<open>c\<close> and \<open>d\<close>.\<close>

definition replace :: "char \<Rightarrow> char \<Rightarrow> string \<Rightarrow> string" where
  "replace c d s = map (\<lambda>x. if x = c then d else x) s"

text \<open>\<open>s.strip()\<close>: ASCII whitespace removed at both ends.\<close>

definition is_space :: "char \<Rightarrow> bool" where
  "is_space c = (c \<in> set [CHR '' '', CHR 0x09, CHR 0x0A, CHR 0x0B, CHR 0x0C, CHR 0x0D])"

definition strip :: "string \<Rightarrow> string" where
  "strip s = rev (dropWhile is_space (rev (dropWhile is_space s)))"

text \<open>
  \<open>os.path.join(a, b)\<close> of \<open>posixpath\<close>: an absolute \<open>b\<close> discards \<open>a\<close>; otherwise one
  separator is put between the two unless \<open>a\<close> is empty or already ends with one.
  Paths are POSIX paths throughout, also where \<open>git_source\<close> respells one for win32.
\<close>

definition join :: "string \<Rightarrow> string \<Rightarrow> string" where
  "join a b =
     (if startswith b ''/'' then b
      else if a = [] \<or> endswith a ''/'' then a @ b
      else a @ ''/'' @ b)"

section \<open>The world: file system, external state, trace of effects\<close>

text \<open>
  The file system is a finite table from normalised absolute paths (lists of components)
  to nodes; the root always exists.  A path string is resolved against the process's
  current directory, lexically: empty components and \<open>.\<close> are dropped, \<open>..\<close> steps up.
\<close>

datatype node = File string | Dir

type_synonym fs = "(string list \<times> node) list"

fun norm :: "string list \<Rightarrow> string list \<Rightarrow> string list" where
  "norm acc [] = acc"
| "norm acc (c # cs) =
     (if c = [] \<or> c = ''.'' then norm acc cs
      else if c = ''..'' then norm (butlast acc) cs
      else norm (acc @ [c]) cs)"

definition resolve :: "string list \<Rightarrow> string \<Rightarrow> string list" where
  "resolve cur p = norm (if startswith p ''/'' then [] else cur) (split_on CHR ''/'' p)"

definition lookup :: "fs \<Rightarrow> string list \<Rightarrow> node option" where
  "lookup f k = (if k = [] then Some Dir else map_of f k)"

text \<open>
  Every effect of the program is appended to a trace, in program order.  \<open>Print\<close> is a
  fully formatted line; \<open>PrintRepr t v\<close> is \<open>print(t + '%r' % v)\<close>, kept unformatted.
\<close>

datatype event =
    Print string
  | PrintRepr string pyval
  | Write string
  | RmRf string
  | MkDirs string
  | Download pyval string
  | TarXf string string
  | Unzip string string
  | Copy2 string string
  | CopyTree string string "string list"
  | Call "pyval list" "string option"
  | Popen "string list" "string option"

text \<open>
  The exceptions the program can end with.  \<open>RuntimeError a c e\<close> is the digest mismatch
  \<open>RuntimeError("%s mismatch: '%s' != '%s'" % (a, c, e))\<close>, kept unformatted;
  \<open>SystemExit m\<close> is \<open>sys.exit(m)\<close>; \<open>PyException m\<close> is \<open>raise Exception(m)\<close>.
  \<open>OSError\<close> and \<open>CalledProcessError\<close> come from the operating system and from
  \<open>subprocess.check_call\<close>.  \<open>TypeError\<close> is what Python raises where a string or an
  iterable is needed and the value has another type (a \<open>TypeError\<close> or an
  \<open>AttributeError\<close>, depending on the operation).
\<close>

datatype error =
    KeyError string
  | TypeError
  | OSError string
  | CalledProcessError int
  | RuntimeError string string pyval
  | SystemExit string
  | PyException string
  | AssertionError

text \<open>
  \<open>ext\<close> is whatever else the collaborators depend on (the network, the remote
  repositories); the program never looks at it.
\<close>

record 'x world =
  fs :: fs
  cwd :: "string list"
  ext :: 'x
  trace :: "event list"

type_synonym ('x, 'a) io = "'x world \<Rightarrow> (error + 'a) \<times> 'x world"

definition ret :: "'a \<Rightarrow> ('x, 'a) io" where
  "ret a w = (Inr a, w)"

definition raise :: "error \<Rightarrow> ('x, 'a) io" where
  "raise e w = (Inl e, w)"

definition bind_io :: "('x, 'a) io \<Rightarrow> ('a \<Rightarrow> ('x, 'b) io) \<Rightarrow> ('x, 'b) io" where
  "bind_io m f w = (case m w of (Inl e, w') \<Rightarrow> (Inl e, w') | (Inr a, w') \<Rightarrow> f a w')"

definition reads :: "('x world \<Rightarrow> 'a) \<Rightarrow> ('x, 'a) io" where
  "reads f w = (Inr (f w), w)"

definition emit :: "event \<Rightarrow> ('x, unit) io" where
  "emit e w = (Inr (), w\<lparr>trace := trace w @ [e]\<rparr>)"

text \<open>
  A call to a collaborator: the event is logged when the call is made, whatever the
  collaborator then does to the world; it cannot touch the trace.
\<close>

definition extern :: "event \<Rightarrow> ('x, 'a) io \<Rightarrow> ('x, 'a) io" where
  "extern e f w = (case f w of (r, w') \<Rightarrow> (r, w'\<lparr>trace := trace w @ [e]\<rparr>))"

subsection \<open>\<open>os.path.isdir\<close>, \<open>os.path.isfile\<close>, \<open>os.listdir\<close>, \<open>os.makedirs\<close>\<close>

definition isdir :: "'x world \<Rightarrow> string \<Rightarrow> bool" where
  "isdir w p = (lookup (fs w) (resolve (cwd w) p) = Some Dir)"

definition isfile :: "'x world \<Rightarrow> string \<Rightarrow> bool" where
  "isfile w p =
     (case lookup (fs w) (resolve (cwd w) p) of Some (File c) \<Rightarrow> True | _ \<Rightarrow> False)"

definition children :: "fs \<Rightarrow> string list \<Rightarrow> string list" where
  "children f k = remdups (map (last \<circ> fst) (filter (\<lambda>(q, n). q \<noteq> [] \<and> butlast q = k) f))"

definition listdir :: "string \<Rightarrow> ('x, string list) io" where
  "listdir p w =
     (if isdir w p then (Inr (children (fs w) (resolve (cwd w) p)), w)
      else (Inl (OSError ''Not a directory''), w))"

text \<open>
  \<open>os.makedirs(p)\<close> creates \<open>p\<close> and every missing ancestor; it raises when \<open>p\<close> exists
  already and when an ancestor is a regular file.
\<close>

definition makedirs :: "string \<Rightarrow> ('x, unit) io" where
  "makedirs p w =
     (let k = resolve (cwd w) p;
          w' = w\<lparr>trace := trace w @ [MkDirs p]\<rparr> in
      if lookup (fs w) k \<noteq> None then (Inl (OSError ''File exists''), w')
      else if list_ex (\<lambda>q. case lookup (fs w) q of Some (File c) \<Rightarrow> True | _ \<Rightarrow> False)
                (prefixes k)
        then (Inl (OSError ''Not a directory''), w')
      else (Inr (), w'\<lparr>fs := map (\<lambda>q. (q, Dir))
                               (filter (\<lambda>q. lookup (fs w) q = None) (prefixes k)) @ fs w\<rparr>))"

text \<open>
  Modelled from the spec: \<open>rm_rf\<close> of \<open>conda_build.utils\<close> is not among the sources.
  The spec's Reset state: "working directory fully removed (if present)".  The path
  and everything below it leave the file system; nothing happens when it is absent.
\<close>

definition rm_rf :: "string \<Rightarrow> ('x, unit) io" where
  "rm_rf p w =
     (Inr (), w\<lparr>fs := filter (\<lambda>(q, n). \<not> prefix (resolve (cwd w) p) q) (fs w),
                trace := trace w @ [RmRf p]\<rparr>)"

section \<open>The collaborators\<close>

text \<open>
  Everything the module imports and calls but does not define is a parameter: the build
  root \<open>croot\<close> of \<open>conda_build.config\<close>, \<open>sys.platform\<close>, \<open>os.getenv('USERNAME')\<close>,
  \<open>external.find_executable\<close> and \<open>external.dir_paths\<close>, \<open>os.pathsep\<close>,
  \<open>conda.fetch.download\<close>, \<open>conda.utils.hashsum_file\<close>, \<open>tar_xf\<close> and \<open>unzip\<close> of
  \<open>conda_build.utils\<close>, \<open>shutil.copy2\<close> and \<open>shutil.copytree\<close>,
  \<open>subprocess.check_call\<close>, and \<open>Popen(...).communicate()\<close> (standard output and
  standard error, decoded).  Each may change the world in any way and may raise.
\<close>

record 'x env =
  croot :: string
  platform :: string
  getenv_USERNAME :: "string option"
  pathsep :: string
  dir_paths :: "string list"
  find_executable_ext :: "'x world \<Rightarrow> string \<Rightarrow> string option"
  hashsum_file_ext :: "'x world \<Rightarrow> string \<Rightarrow> string \<Rightarrow> error + string"
  download_ext :: "pyval \<Rightarrow> string \<Rightarrow> ('x, unit) io"
  tar_xf_ext :: "string \<Rightarrow> string \<Rightarrow> ('x, unit) io"
  unzip_ext :: "string \<Rightarrow> string \<Rightarrow> ('x, unit) io"
  copy2_ext :: "string \<Rightarrow> string \<Rightarrow> ('x, unit) io"
  copytree_ext :: "string \<Rightarrow> string \<Rightarrow> string list \<Rightarrow> ('x, unit) io"
  check_call_ext :: "pyval list \<Rightarrow> string option \<Rightarrow> ('x, unit) io"
  popen_ext :: "string list \<Rightarrow> string option \<Rightarrow> ('x, string \<times> string) io"

definition find_executable :: "'x env \<Rightarrow> string \<Rightarrow> ('x, string option) io" where
  "find_executable env name = reads (\<lambda>w. find_executable_ext env w name)"

definition hashsum_file :: "'x env \<Rightarrow> string \<Rightarrow> string \<Rightarrow> ('x, string) io" where
  "hashsum_file env path tp w = (hashsum_file_ext env w path tp, w)"

definition download :: "'x env \<Rightarrow> pyval \<Rightarrow> string \<Rightarrow> ('x, unit) io" where
  "download env url path = extern (Download url path) (download_ext env url path)"

definition tar_xf :: "'x env \<Rightarrow> string \<Rightarrow> string \<Rightarrow> ('x, unit) io" where
  "tar_xf env src dst = extern (TarXf src dst) (tar_xf_ext env src dst)"

definition unzip :: "'x env \<Rightarrow> string \<Rightarrow> string \<Rightarrow> ('x, unit) io" where
  "unzip env src dst = extern (Unzip src dst) (unzip_ext env src dst)"

definition copy2 :: "'x env \<Rightarrow> string \<Rightarrow> string \<Rightarrow> ('x, unit) io" where
  "copy2 env src dst = extern (Copy2 src dst) (copy2_ext env src dst)"

definition copytree :: "'x env \<Rightarrow> string \<Rightarrow> string \<Rightarrow> string list \<Rightarrow> ('x, unit) io" where
  "copytree env src dst ign = extern (CopyTree src dst ign) (copytree_ext env src dst ign)"

definition check_call :: "'x env \<Rightarrow> pyval list \<Rightarrow> string option \<Rightarrow> ('x, unit) io" where
  "check_call env argv dir = extern (Call argv dir) (check_call_ext env argv dir)"

definition popen_communicate ::
    "'x env \<Rightarrow> string list \<Rightarrow> string option \<Rightarrow> ('x, string \<times> string) io" where
  "popen_communicate env argv dir = extern (Popen argv dir) (popen_ext env argv dir)"

section \<open>The module \<open>conda_build.source\<close>\<close>

definition SRC_CACHE :: "'x env \<Rightarrow> string" where
  "SRC_CACHE env = join (croot env) ''src_cache''"

definition GIT_CACHE :: "'x env \<Rightarrow> string" where
  "GIT_CACHE env = join (croot env) ''git_cache''"

definition HG_CACHE :: "'x env \<Rightarrow> string" where
  "HG_CACHE env = join (croot env) ''hg_cache''"

definition SVN_CACHE :: "'x env \<Rightarrow> string" where
  "SVN_CACHE env = join (croot env) ''svn_cache''"

definition WORK_DIR :: "'x env \<Rightarrow> string" where
  "WORK_DIR env = join (croot env) ''work''"

text \<open>\<open>meta[k]\<close>, and the coercions Python makes where a string or an iterable is needed.\<close>

definition subscript :: "meta \<Rightarrow> string \<Rightarrow> ('x, pyval) io" where
  "subscript m k = (case m k of None \<Rightarrow> raise (KeyError k) | Some v \<Rightarrow> ret v)"

definition as_str :: "pyval \<Rightarrow> ('x, string) io" where
  "as_str v = (case v of PStr s \<Rightarrow> ret s | _ \<Rightarrow> raise TypeError)"

definition py_iter :: "pyval \<Rightarrow> ('x, string list) io" where
  "py_iter v =
     (case v of
        PNone \<Rightarrow> raise TypeError
      | PStr s \<Rightarrow> ret (map (\<lambda>c. [c]) s)
      | PList xs \<Rightarrow> ret xs)"

text \<open>The recurring statement \<open>if not isdir(p): os.makedirs(p)\<close>.\<close>

definition ensure_dir :: "string \<Rightarrow> ('x, unit) io" where
  "ensure_dir p = bind_io (reads (\<lambda>w. isdir w p)) (\<lambda>d. if \<not> d then makedirs p else ret ())"

definition get_dir :: "'x env \<Rightarrow> ('x, string) io" where
  "get_dir env =
     bind_io (ensure_dir (WORK_DIR env)) (\<lambda>_.
     bind_io (listdir (WORK_DIR env)) (\<lambda>names.
       let lst = filter (\<lambda>fn. \<not> startswith fn ''.'') names in
       if length lst = 1 then
         (let dir_path = join (WORK_DIR env) (lst ! 0) in
          bind_io (reads (\<lambda>w. isdir w dir_path)) (\<lambda>b.
            if b then ret dir_path else ret (WORK_DIR env)))
       else ret (WORK_DIR env)))"

text \<open>
  The digest loop of \<open>download_to_cache\<close> (lines 54 to 57), over the algorithms still to
  check.  \<open>meta.get(tp) and ...\<close> evaluates \<open>hashsum_file\<close> only for a truthy expected
  value, and then \<open>meta[tp]\<close> is that value.  The digest in the message is the one just
  compared: \<open>hashsum_file\<close> only reads.
\<close>

fun download_to_cache_loop ::
    "'x env \<Rightarrow> meta \<Rightarrow> string \<Rightarrow> string list \<Rightarrow> ('x, unit) io" where
  "download_to_cache_loop env m path [] = ret ()"
| "download_to_cache_loop env m path (tp # tps) =
     (if truthy (meta_get m tp) then
        bind_io (hashsum_file env path tp) (\<lambda>h.
          if PStr h \<noteq> meta_get m tp
          then raise (RuntimeError (upper tp) h (meta_get m tp))
          else download_to_cache_loop env m path tps)
      else download_to_cache_loop env m path tps)"

definition download_to_cache :: "'x env \<Rightarrow> meta \<Rightarrow> ('x, string) io" where
  "download_to_cache env m =
     bind_io (emit (Print (''Source cache directory is: '' @ SRC_CACHE env))) (\<lambda>_.
     bind_io (ensure_dir (SRC_CACHE env)) (\<lambda>_.
     bind_io (subscript m ''fn'') (\<lambda>fnv.
     bind_io (as_str fnv) (\<lambda>fn.
       let path = join (SRC_CACHE env) fn in
     bind_io (reads (\<lambda>w. isfile w path)) (\<lambda>cached.
     bind_io (if cached then emit (Print (''Found source in cache: '' @ fn))
              else bind_io (emit (Print (''Downloading source to cache: '' @ fn))) (\<lambda>_.
                   bind_io (subscript m ''url'') (\<lambda>url.
                   download env url path))) (\<lambda>_.
     bind_io (download_to_cache_loop env m path [''md5'', ''sha1'', ''sha256'']) (\<lambda>_.
     ret path)))))))"

text \<open>
  \<open>unpack\<close> tests the lower-cased cache path against the known suffixes; \<open>endswith\<close>
  with a tuple holds when any member matches.
\<close>

definition unpack :: "'x env \<Rightarrow> meta \<Rightarrow> ('x, unit) io" where
  "unpack env m =
     bind_io (download_to_cache env m) (\<lambda>src_path.
     bind_io (makedirs (WORK_DIR env)) (\<lambda>_.
       if list_ex (endswith (lower src_path))
            [''.tar.gz'', ''.tar.bz2'', ''.tgz'', ''.tar.xz'', ''.tar'']
       then tar_xf env src_path (WORK_DIR env)
       else if endswith (lower src_path) ''.zip''
       then unzip env src_path (WORK_DIR env)
       else
         bind_io (emit (Print
           ''Warning: Unrecognized source format. Source file will be copied to the SRC_DIR''))
           (\<lambda>_.
         copy2 env src_path (WORK_DIR env))))"

definition assert_io :: "('x world \<Rightarrow> bool) \<Rightarrow> ('x, unit) io" where
  "assert_io P w = (if P w then (Inr (), w) else (Inl AssertionError, w))"

text \<open>Python's \<open>not exe\<close> for the result of \<open>find_executable\<close>: \<open>None\<close> or empty.\<close>

definition not_found :: "string option \<Rightarrow> bool" where
  "not_found g = (g = None \<or> g = Some [])"

text \<open>\<open>cmd.split()\<close>: split at runs of whitespace.\<close>

fun split_by :: "(char \<Rightarrow> bool) \<Rightarrow> string \<Rightarrow> string list" where
  "split_by P [] = [[]]"
| "split_by P (x # xs) =
     (if P x then [] # split_by P xs
      else (case split_by P xs of [] \<Rightarrow> [[x]] | h # t \<Rightarrow> (x # h) # t))"

definition split_ws :: "string \<Rightarrow> string list" where
  "split_ws s = filter (\<lambda>x. x \<noteq> []) (split_by is_space s)"

text \<open>
  The loop of \<open>git_info\<close> over the commands still to run; \<open>fo\<close> is the standard output,
  its only use in this module.
\<close>

fun git_info_loop :: "'x env \<Rightarrow> (string \<times> bool) list \<Rightarrow> ('x, unit) io" where
  "git_info_loop env [] = ret ()"
| "git_info_loop env ((cmd, check_error) # rest) =
     bind_io (popen_communicate env (split_ws cmd) (Some (WORK_DIR env))) (\<lambda>(stdout, stderr).
       if check_error \<and> stderr \<noteq> [] \<and> strip stderr \<noteq> []
       then raise (PyException (''git error: '' @ stderr))
       else
         bind_io (emit (Write (''==> '' @ cmd @ '' <=='' @ [CHR 0x0A]))) (\<lambda>_.
         bind_io (emit (Write (stdout @ [CHR 0x0A]))) (\<lambda>_.
         git_info_loop env rest)))"

definition git_info :: "'x env \<Rightarrow> ('x, unit) io" where
  "git_info env =
     bind_io (assert_io (\<lambda>w. isdir w (WORK_DIR env))) (\<lambda>_.
     git_info_loop env
       [(''git log -n1'', True), (''git describe --tags --dirty'', False), (''git status'', True)])"

text \<open>
  The directory name of a mirror, and the two spellings of its path in \<open>git_source\<close>
  (lines 86 to 91): on win32 the argument given to git has its backslashes turned and,
  for the user \<open>builder\<close>, its drive prefix replaced.
\<close>

definition git_dn :: "string \<Rightarrow> string" where
  "git_dn url = replace CHR ''/'' CHR ''_'' (last (split_on CHR '':'' url))"

definition git_cache_repo :: "'x env \<Rightarrow> string \<Rightarrow> string" where
  "git_cache_repo env url = join (GIT_CACHE env) (git_dn url)"

definition git_cache_repo_arg :: "'x env \<Rightarrow> string \<Rightarrow> string" where
  "git_cache_repo_arg env url =
     (if platform env = ''win32'' then
        (let a = replace CHR 0x5C CHR ''/'' (git_cache_repo env url) in
         if getenv_USERNAME env = Some ''builder'' then ''/cygdrive/c/'' @ drop 3 a else a)
      else git_cache_repo env url)"

definition git_source :: "'x env \<Rightarrow> meta \<Rightarrow> ('x, string) io" where
  "git_source env m =
     bind_io (ensure_dir (GIT_CACHE env)) (\<lambda>_.
     bind_io (find_executable env ''git'') (\<lambda>g.
     if not_found g then raise (SystemExit ''Error: git is not installed'') else
     let git = the g in
     bind_io (subscript m ''git_url'') (\<lambda>urlv.
     bind_io (as_str urlv) (\<lambda>git_url.
     let cache_repo = git_cache_repo env git_url;
         cache_repo_arg = git_cache_repo_arg env git_url in
     bind_io (reads (\<lambda>w. isdir w cache_repo)) (\<lambda>mirrored.
     bind_io (if mirrored then check_call env [PStr git, PStr ''fetch''] (Some cache_repo)
              else
                bind_io (check_call env
                  [PStr git, PStr ''clone'', PStr ''--mirror'', PStr git_url, PStr cache_repo_arg]
                  None) (\<lambda>_.
                assert_io (\<lambda>w. isdir w cache_repo))) (\<lambda>_.
     let checkout =
           py_or (py_or (meta_get m ''git_tag'') (meta_get m ''git_branch'')) (PStr ''master'') in
     bind_io (emit (PrintRepr ''checkout: '' checkout)) (\<lambda>_.
     bind_io (check_call env [PStr git, PStr ''clone'', PStr cache_repo_arg, PStr (WORK_DIR env)]
                None) (\<lambda>_.
     bind_io (check_call env [PStr git, PStr ''checkout'', checkout] (Some (WORK_DIR env))) (\<lambda>_.
     bind_io (git_info env) (\<lambda>_.
     ret (WORK_DIR env)))))))))))"

definition hg_cache_repo :: "'x env \<Rightarrow> string \<Rightarrow> string" where
  "hg_cache_repo env url =
     join (HG_CACHE env) (replace CHR ''/'' CHR ''_'' (last (split_on CHR '':'' url)))"

definition hg_source :: "'x env \<Rightarrow> meta \<Rightarrow> ('x, string) io" where
  "hg_source env m =
     bind_io (find_executable env ''hg'') (\<lambda>g.
     if not_found g then raise (SystemExit ''Error: hg not installed'') else
     let hg = the g in
     bind_io (subscript m ''hg_url'') (\<lambda>urlv.
     bind_io (ensure_dir (HG_CACHE env)) (\<lambda>_.
     bind_io (as_str urlv) (\<lambda>hg_url.
     let cache_repo = hg_cache_repo env hg_url in
     bind_io (reads (\<lambda>w. isdir w cache_repo)) (\<lambda>mirrored.
     bind_io (if mirrored then check_call env [PStr hg, PStr ''pull''] (Some cache_repo)
              else
                bind_io (check_call env [PStr hg, PStr ''clone'', PStr hg_url, PStr cache_repo]
                  None) (\<lambda>_.
                assert_io (\<lambda>w. isdir w cache_repo))) (\<lambda>_.
     let update = py_or (meta_get m ''hg_tag'') (PStr ''tip'') in
     bind_io (emit (PrintRepr ''checkout: '' update)) (\<lambda>_.
     bind_io (check_call env [PStr hg, PStr ''clone'', PStr cache_repo, PStr (WORK_DIR env)]
                None) (\<lambda>_.
     bind_io (check_call env [PStr hg, PStr ''update'', PStr ''-C'', update]
                (Some (WORK_DIR env))) (\<lambda>_.
     ret (WORK_DIR env))))))))))"

text \<open>
  \<open>parse_bool(s)\<close> is \<open>str(s).lower().strip() in ('yes', 'true', '1', 'on')\<close>; \<open>str\<close> of
  \<open>None\<close> or of a list is none of the four words.
\<close>

definition parse_bool :: "pyval \<Rightarrow> bool" where
  "parse_bool v =
     (case v of
        PStr s \<Rightarrow> strip (lower s) \<in> set [''yes'', ''true'', ''1'', ''on'']
      | _ \<Rightarrow> False)"

definition svn_cache_repo :: "'x env \<Rightarrow> string \<Rightarrow> string" where
  "svn_cache_repo env url =
     join (SVN_CACHE env)
       (replace CHR '':'' CHR ''_'' (replace CHR ''/'' CHR ''_'' (last (split_on1 CHR '':'' url))))"

definition svn_source :: "'x env \<Rightarrow> meta \<Rightarrow> ('x, string) io" where
  "svn_source env m =
     bind_io (find_executable env ''svn'') (\<lambda>g.
     if not_found g then raise (SystemExit ''Error: svn is not installed'') else
     let svn = the g in
     bind_io (subscript m ''svn_url'') (\<lambda>urlv.
     let svn_revision = py_or (meta_get m ''svn_rev'') (PStr ''head'');
         svn_ignore_externals =
           parse_bool (py_or (meta_get m ''svn_ignore_externals'') (PStr ''no'')) in
     bind_io (ensure_dir (SVN_CACHE env)) (\<lambda>_.
     bind_io (as_str urlv) (\<lambda>svn_url.
     let cache_repo = svn_cache_repo env svn_url;
         extra_args = (if svn_ignore_externals then [PStr ''--ignore-externals''] else []) in
     bind_io (reads (\<lambda>w. isdir w cache_repo)) (\<lambda>mirrored.
     bind_io (if mirrored
              then check_call env ([PStr svn, PStr ''up'', PStr ''-r'', svn_revision] @ extra_args)
                     (Some cache_repo)
              else
                bind_io (check_call env
                  ([PStr svn, PStr ''co'', PStr ''-r'', svn_revision] @ extra_args
                     @ [PStr svn_url, PStr cache_repo]) None) (\<lambda>_.
                assert_io (\<lambda>w. isdir w cache_repo))) (\<lambda>_.
     bind_io (copytree env cache_repo (WORK_DIR env) [''.svn'']) (\<lambda>_.
     ret (WORK_DIR env))))))))"

text \<open>\<open>sep.join(xs)\<close>, and the message of \<open>apply_patch\<close> when the patch tool is missing.\<close>

fun sep_join :: "string \<Rightarrow> string list \<Rightarrow> string" where
  "sep_join sep [] = []"
| "sep_join sep [x] = x"
| "sep_join sep (x # y # ys) = x @ sep @ sep_join sep (y # ys)"

definition patch_missing :: "'x env \<Rightarrow> string" where
  "patch_missing env =
     ''Error:'' @ [CHR 0x0A]
     @ ''    Did not find '' @ [CHR 0x27] @ ''patch'' @ [CHR 0x27] @ '' in: ''
     @ sep_join (pathsep env) (dir_paths env) @ [CHR 0x0A]
     @ ''    You can install '' @ [CHR 0x27] @ ''patch'' @ [CHR 0x27]
     @ '' using apt-get, yum (Linux), Xcode (MacOSX),'' @ [CHR 0x0A]
     @ ''    or conda, cygwin (Windows),'' @ [CHR 0x0A]"

definition apply_patch :: "'x env \<Rightarrow> string \<Rightarrow> string \<Rightarrow> ('x, unit) io" where
  "apply_patch env src_dir path =
     bind_io (emit (PrintRepr ''Applying patch: '' (PStr path))) (\<lambda>_.
     bind_io (reads (\<lambda>w. isfile w path)) (\<lambda>there.
     if \<not> there then raise (SystemExit (''Error: no such patch: '' @ path)) else
     bind_io (find_executable env ''patch'') (\<lambda>p.
     case p of
       None \<Rightarrow> raise (SystemExit (patch_missing env))
     | Some patch \<Rightarrow>
         check_call env [PStr patch, PStr ''-p0'', PStr ''-i'', PStr path] (Some src_dir))))"

text \<open>The patch loop of \<open>provide\<close> (lines 224 and 225), over the entries still to apply.\<close>

fun provide_loop :: "'x env \<Rightarrow> string \<Rightarrow> string \<Rightarrow> string list \<Rightarrow> ('x, unit) io" where
  "provide_loop env src_dir recipe_dir [] = ret ()"
| "provide_loop env src_dir recipe_dir (p # ps) =
     bind_io (apply_patch env src_dir (join recipe_dir p)) (\<lambda>_.
     provide_loop env src_dir recipe_dir ps)"

text \<open>
  The patching step of \<open>provide\<close> (lines 222 to 225).  \<open>meta.get('patches', [])\<close> is
  the value under the key when there is one; iterating a string yields its characters,
  iterating \<open>None\<close> raises.
\<close>

definition provide_patching :: "'x env \<Rightarrow> string \<Rightarrow> meta \<Rightarrow> bool \<Rightarrow> ('x, unit) io" where
  "provide_patching env recipe_dir m patch =
     (if patch then
        bind_io (get_dir env) (\<lambda>src_dir.
        bind_io (py_iter (case m ''patches'' of None \<Rightarrow> PList [] | Some v \<Rightarrow> v)) (\<lambda>ps.
        provide_loop env src_dir recipe_dir ps))
      else ret ())"

text \<open>
  \<open>provide\<close> has no \<open>return\<close> statement: its value is \<open>None\<close>.  The values returned by
  the three checkout functions are dropped.
\<close>

definition provide :: "'x env \<Rightarrow> string \<Rightarrow> meta \<Rightarrow> bool \<Rightarrow> ('x, pyval) io" where
  "provide env recipe_dir m patch =
     bind_io (rm_rf (WORK_DIR env)) (\<lambda>_.
     bind_io (if m ''fn'' \<noteq> None then unpack env m
              else if m ''git_url'' \<noteq> None then bind_io (git_source env m) (\<lambda>_. ret ())
              else if m ''hg_url'' \<noteq> None then bind_io (hg_source env m) (\<lambda>_. ret ())
              else if m ''svn_url'' \<noteq> None then bind_io (svn_source env m) (\<lambda>_. ret ())
              else makedirs (WORK_DIR env)) (\<lambda>_.
     bind_io (provide_patching env recipe_dir m patch) (\<lambda>_.
     ret PNone)))"

section \<open>Observations on traces\<close>

text \<open>The events a run has added to the trace it started from.\<close>

definition added :: "'x world \<Rightarrow> 'x world \<Rightarrow> event list" where
  "added w w' = drop (length (trace w)) (trace w')"

text \<open>The commands run and the trees copied, in order; prints and the rest are dropped.\<close>

fun is_action :: "event \<Rightarrow> bool" where
  "is_action (Call argv dir) = True"
| "is_action (CopyTree src dst ign) = True"
| "is_action e = False"

definition actions :: "event list \<Rightarrow> event list" where
  "actions es = filter is_action es"

text \<open>
  \<open>performs k xs\<close>: whatever \<open>k\<close> does, it only extends the trace; the commands and
  copies it adds are \<open>xs\<close> when it returns, and an initial part of \<open>xs\<close> when it raises.
\<close>

definition performs :: "('x, 'a) io \<Rightarrow> event list \<Rightarrow> bool" where
  "performs k xs =
     (\<forall>w r w'. k w = (r, w') \<longrightarrow>
        (\<exists>es. trace w' = trace w @ es \<and>
           (case r of Inl e \<Rightarrow> prefix (actions es) xs | Inr a \<Rightarrow> actions es = xs)))"

text \<open>\<open>extends k\<close>: whatever \<open>k\<close> does, the trace it leaves begins with the one it found.\<close>

definition extends :: "('x, 'a) io \<Rightarrow> bool" where
  "extends k = (\<forall>w. prefix (trace w) (trace (snd (k w))))"

named_theorems extends_intro

section \<open>A concrete host\<close>

text \<open>
  A small host on which the program can be run: the build root is \<open>/b\<close>; every tool is
  installed under \<open>/usr/bin\<close>, the patch tool only when \<open>has_patch\<close>; a download writes
  an empty file; the digests are those of the empty file; tar and zip archives unpack
  to one directory \<open>pkg\<close> holding one file; a copied file keeps its name and
  content; a clone and an svn checkout create their target directory; every command
  succeeds and prints nothing on standard error.
\<close>

definition put :: "string \<Rightarrow> node \<Rightarrow> 'x world \<Rightarrow> 'x world" where
  "put p n w = w\<lparr>fs := (resolve (cwd w) p, n) # fs w\<rparr>"

definition empty_digest :: "string \<Rightarrow> string" where
  "empty_digest tp =
     (if tp = ''md5'' then ''d41d8cd98f00b204e9800998ecf8427e''
      else if tp = ''sha1'' then ''da39a3ee5e6b4b0d3255bfef95601890afd80709''
      else ''e3b0c44298fc1c149afbf4c8996fb92427ae41e4649b934ca495991b7852b855'')"

definition host_command :: "pyval list \<Rightarrow> unit world \<Rightarrow> unit world" where
  "host_command argv w =
     (if 2 \<le> length argv \<and> argv ! 1 \<in> set [PStr ''clone'', PStr ''co'']
      then (case last argv of PStr dst \<Rightarrow> put dst Dir w | _ \<Rightarrow> w)
      else w)"

definition host :: "bool \<Rightarrow> unit env" where
  "host has_patch =
     \<lparr> croot = ''/b'', platform = ''linux'', getenv_USERNAME = None, pathsep = '':'',
       dir_paths = [''/usr/bin''],
       find_executable_ext =
         (\<lambda>w name. if name = ''patch'' \<and> \<not> has_patch then None else Some (''/usr/bin/'' @ name)),
       hashsum_file_ext =
         (\<lambda>w path tp. if isfile w path then Inr (empty_digest tp)
                       else Inl (OSError ''No such file or directory'')),
       download_ext = (\<lambda>url path w. (Inr (), put path (File []) w)),
       tar_xf_ext = (\<lambda>src dst w.
         (Inr (), put (join dst ''pkg'') Dir (put (join (join dst ''pkg'') ''setup.py'') (File []) w))),
       unzip_ext = (\<lambda>src dst w.
         (Inr (), put (join dst ''pkg'') Dir (put (join (join dst ''pkg'') ''setup.py'') (File []) w))),
       copy2_ext = (\<lambda>src dst w.
         case lookup (fs w) (resolve (cwd w) src) of
           Some (File c) \<Rightarrow> (Inr (), put (join dst (last (split_on CHR ''/'' src))) (File c) w)
         | _ \<Rightarrow> (Inl (OSError ''No such file or directory''), w)),
       copytree_ext = (\<lambda>src dst ign w. (Inr (), put dst Dir w)),
       check_call_ext = (\<lambda>argv dir w. (Inr (), host_command argv w)),
       popen_ext = (\<lambda>argv dir w. (Inr ([], []), w)) \<rparr>"

definition world0 :: "fs \<Rightarrow> unit world" where
  "world0 f = \<lparr> fs = f, cwd = [], ext = (), trace = [] \<rparr>"

text \<open>Descriptors and worlds used as concrete inputs below.\<close>

definition meta_archive :: meta where
  "meta_archive = [''fn'' \<mapsto> PStr ''a.tar.gz'', ''url'' \<mapsto> PStr ''http://x/a.tar.gz'']"

definition meta_upper_md5 :: meta where
  "meta_upper_md5 = meta_archive(''md5'' \<mapsto> PStr ''D41D8CD98F00B204E9800998ECF8427E'')"

definition meta_wrong_sha1 :: meta where
  "meta_wrong_sha1 =
     meta_archive(''md5'' \<mapsto> PStr ''d41d8cd98f00b204e9800998ecf8427e'',
                  ''sha1'' \<mapsto> PStr ''0000000000000000000000000000000000000000'')"

definition meta_empty_md5 :: meta where
  "meta_empty_md5 = meta_archive(''md5'' \<mapsto> PStr [])"

definition world_cached :: "unit world" where
  "world_cached = world0 [([''b'', ''src_cache'', ''a.tar.gz''], File [])]"


text \<open>
  The descriptor of the module's \<open>__main__\<close> block, descriptors with patches, a
  recipe directory \<open>/r\<close> holding \<open>fix.patch\<close>, and a working directory unpacked to
  one directory.
\<close>

definition meta_main :: meta where
  "meta_main =
     [''url'' \<mapsto> PStr ''http://pypi.python.org/packages/source/b/bitarray/bitarray-0.8.0.tar.gz'',
      ''git_url'' \<mapsto> PStr ''git@github.com:ilanschnell/bitarray.git'',
      ''git_tag'' \<mapsto> PStr ''0.5.2'']"


definition meta_patches :: meta where
  "meta_patches = [''patches'' \<mapsto> PList [''fix.patch'', ''fix1.patch'', ''fix2.patch'']]"

definition world_recipe :: "unit world" where
  "world_recipe = world0 [([''r'', ''fix.patch''], File [])]"


text \<open>Mercurial and Subversion descriptors, a Mercurial mirror, and two archives.\<close>

definition meta_hg :: meta where
  "meta_hg = [''hg_url'' \<mapsto> PStr ''https://h/repo'']"

definition meta_svn :: meta where
  "meta_svn = [''svn_url'' \<mapsto> PStr ''http://h/svn/x'', ''svn_rev'' \<mapsto> PStr ''42'',
               ''svn_ignore_externals'' \<mapsto> PStr ''Yes'']"


definition meta_upper_tar :: meta where
  "meta_upper_tar = [''fn'' \<mapsto> PStr ''A.TAR.GZ'', ''url'' \<mapsto> PStr ''http://x/A.TAR.GZ'']"

definition meta_text :: meta where
  "meta_text = [''fn'' \<mapsto> PStr ''notes.txt'', ''url'' \<mapsto> PStr ''http://x/notes.txt'']"

text \<open>A working directory left over from an earlier run.\<close>

definition world_stale :: "unit world" where
  "world_stale = world0 [([''b''], Dir), ([''b'', ''work''], Dir),
                         ([''b'', ''work'', ''stale''], File ''left over'')]"

section \<open>Basic facts about the effect combinators\<close>

lemma ret_apply [simp]: "ret a w = (Inr a, w)"
  by (simp add: ret_def)

lemma raise_apply [simp]: "raise e w = (Inl e, w)"
  by (simp add: raise_def)

lemma reads_apply [simp]: "reads g w = (Inr (g w), w)"
  by (simp add: reads_def)

lemma emit_apply [simp]: "emit e w = (Inr (), w\<lparr>trace := trace w @ [e]\<rparr>)"
  by (simp add: emit_def)

lemma bind_io_Inr: "m w = (Inr a, w') \<Longrightarrow> bind_io m f w = f a w'"
  by (simp add: bind_io_def)

lemma bind_io_Inl: "m w = (Inl e, w') \<Longrightarrow> bind_io m f w = (Inl e, w')"
  by (simp add: bind_io_def)

lemma bind_ret [simp]: "bind_io (ret a) f w = f a w"
  by (simp add: bind_io_def)

lemma bind_raise [simp]: "bind_io (raise e) f w = (Inl e, w)"
  by (simp add: bind_io_def)

lemma bind_reads [simp]: "bind_io (reads g) f w = f (g w) w"
  by (simp add: bind_io_def)

lemma bind_emit [simp]: "bind_io (emit e) f w = f () (w\<lparr>trace := trace w @ [e]\<rparr>)"
  by (simp add: bind_io_def)

lemma bind_io_assoc: "bind_io (bind_io m f) g = bind_io m (\<lambda>a. bind_io (f a) g)"
  by (rule ext) (simp add: bind_io_def split: prod.splits sum.splits)

lemma hashsum_file_apply [simp]:
  "hashsum_file env path tp w = (hashsum_file_ext env w path tp, w)"
  by (simp add: hashsum_file_def)

lemma find_executable_apply [simp]:
  "find_executable env name w = (Inr (find_executable_ext env w name), w)"
  by (simp add: find_executable_def)

lemma isfile_trace [simp]: "isfile (w\<lparr>trace := t\<rparr>) p = isfile w p"
  by (simp add: isfile_def)

lemma isdir_trace [simp]: "isdir (w\<lparr>trace := t\<rparr>) p = isdir w p"
  by (simp add: isdir_def)

lemma bind_find_executable [simp]:
  "bind_io (find_executable env name) f w = f (find_executable_ext env w name) w"
  by (simp add: bind_io_def)

lemma bind_Pair_Inr [simp]: "bind_io (Pair (Inr a)) f = f a"
  by (rule ext) (simp add: bind_io_def)

lemma bind_Pair_Inl [simp]: "bind_io (Pair (Inl e)) f = Pair (Inl e)"
  by (rule ext) (simp add: bind_io_def)

lemma bind_io_InrD:
  assumes "bind_io m f w = (Inr b, w')"
  shows "\<exists>a w1. m w = (Inr a, w1) \<and> f a w1 = (Inr b, w')"
proof (cases "m w")
  case (Pair r w1)
  with assms show ?thesis
    by (cases r) (simp_all add: bind_io_def)
qed






section \<open>Digest verification\<close>

lemma meta_get_upd [simp]:
  "meta_get (m(k := None)) k' = (if k' = k then PNone else meta_get m k')"
  by (simp add: meta_get_def)

lemma loop_falsy_as_absent:
  "\<not> truthy (meta_get m tp) \<Longrightarrow>
     download_to_cache_loop env (m(tp := None)) path tps w =
     download_to_cache_loop env m path tps w"
  by (induction tps) (auto simp: bind_io_def split: sum.splits)

lemma loop_all_falsy:
  "\<forall>tp \<in> set tps. \<not> truthy (meta_get m tp) \<Longrightarrow>
     download_to_cache_loop env m path tps w = (Inr (), w)"
  by (induction tps) auto

text \<open>
  When the digests can be computed, the loop stops at the first algorithm, in the order
  checked, whose truthy expected value is not the computed string.
\<close>

lemma loop_outcome:
  assumes "\<forall>tp \<in> set tps. hashsum_file_ext env w path tp = Inr (d tp)"
  shows "download_to_cache_loop env m path tps w =
           (case find (\<lambda>tp. truthy (meta_get m tp) \<and> meta_get m tp \<noteq> PStr (d tp)) tps of
              None \<Rightarrow> (Inr (), w)
            | Some tp \<Rightarrow> (Inl (RuntimeError (upper tp) (d tp) (meta_get m tp)), w))"
  using assms by (induction tps) (auto simp: bind_io_def)

text \<open>
  C2, as the code has it: when no digest key is present the loop of \<open>download_to_cache\<close>
  never fails; and when the three digests of the cached file can be computed, it fails
  exactly when some algorithm has a truthy expected value that is not the very string
  computed.  The comparison is Python's \<open>!=\<close> on the two values: character for
  character, with no case folding.
\<close>

theorem digest_verification_exact:
  "((\<forall>tp \<in> set [''md5'', ''sha1'', ''sha256'']. m tp = None) \<longrightarrow>
      download_to_cache_loop env m path [''md5'', ''sha1'', ''sha256''] w = (Inr (), w))
   \<and> ((\<forall>tp \<in> set [''md5'', ''sha1'', ''sha256''].
          hashsum_file_ext env w path tp = Inr (d tp)) \<longrightarrow>
      ((\<exists>e. fst (download_to_cache_loop env m path [''md5'', ''sha1'', ''sha256''] w) = Inl e)
       \<longleftrightarrow> (\<exists>tp \<in> set [''md5'', ''sha1'', ''sha256''].
              truthy (meta_get m tp) \<and> meta_get m tp \<noteq> PStr (d tp))))"
proof (intro conjI impI)
  assume "\<forall>tp \<in> set [''md5'', ''sha1'', ''sha256'']. m tp = None"
  then have "\<forall>tp \<in> set [''md5'', ''sha1'', ''sha256'']. \<not> truthy (meta_get m tp)"
    by (simp add: meta_get_def)
  then show "download_to_cache_loop env m path [''md5'', ''sha1'', ''sha256''] w = (Inr (), w)"
    by (rule loop_all_falsy)
next
  let ?L = "[''md5'', ''sha1'', ''sha256'']"
  let ?bad = "\<lambda>tp. truthy (meta_get m tp) \<and> meta_get m tp \<noteq> PStr (d tp)"
  assume h: "\<forall>tp \<in> set ?L. hashsum_file_ext env w path tp = Inr (d tp)"
  have out: "download_to_cache_loop env m path ?L w =
           (case find ?bad ?L of
              None \<Rightarrow> (Inr (), w)
            | Some tp \<Rightarrow> (Inl (RuntimeError (upper tp) (d tp) (meta_get m tp)), w))"
    using h by (rule loop_outcome)
  have "(\<exists>e. fst (download_to_cache_loop env m path ?L w) = Inl e) \<longleftrightarrow> find ?bad ?L \<noteq> None"
    unfolding out by (cases "find ?bad ?L") simp_all
  also have "\<dots> \<longleftrightarrow> (\<exists>tp \<in> set ?L. ?bad tp)"
    by (simp only: find_None_iff) blast
  finally show "(\<exists>e. fst (download_to_cache_loop env m path ?L w) = Inl e)
       \<longleftrightarrow> (\<exists>tp \<in> set ?L. ?bad tp)" .
qed

text \<open>
  The theorem at work on the concrete host, with the archive already in the cache: a
  descriptor without digests passes, and one whose sha1 is wrong fails.
\<close>

theorem digest_verification_exact_witness:
  "meta_archive ''md5'' = None \<and> meta_archive ''sha1'' = None \<and> meta_archive ''sha256'' = None
   \<and> download_to_cache_loop (host True) meta_archive ''/b/src_cache/a.tar.gz''
        [''md5'', ''sha1'', ''sha256''] world_cached = (Inr (), world_cached)
   \<and> list_all (\<lambda>tp. hashsum_file_ext (host True) world_cached ''/b/src_cache/a.tar.gz'' tp
                       = Inr (empty_digest tp)) [''md5'', ''sha1'', ''sha256'']
   \<and> (\<exists>e. fst (download_to_cache_loop (host True) meta_wrong_sha1 ''/b/src_cache/a.tar.gz''
               [''md5'', ''sha1'', ''sha256''] world_cached) = Inl e)"
proof -
  have none: "\<forall>tp \<in> set [''md5'', ''sha1'', ''sha256'']. meta_archive tp = None"
    by (simp add: meta_archive_def)
  have sums: "\<forall>tp \<in> set [''md5'', ''sha1'', ''sha256''].
        hashsum_file_ext (host True) world_cached ''/b/src_cache/a.tar.gz'' tp
          = Inr (empty_digest tp)"
    by (simp add: host_def world_cached_def world0_def isfile_def lookup_def resolve_def
        startswith_def)
  have bad: "\<exists>tp \<in> set [''md5'', ''sha1'', ''sha256''].
        truthy (meta_get meta_wrong_sha1 tp) \<and> meta_get meta_wrong_sha1 tp \<noteq> PStr (empty_digest tp)"
    by (simp add: meta_wrong_sha1_def meta_archive_def meta_get_def empty_digest_def)
  from digest_verification_exact [of meta_archive "host True" "''/b/src_cache/a.tar.gz''"
      world_cached empty_digest] none
  have a: "download_to_cache_loop (host True) meta_archive ''/b/src_cache/a.tar.gz''
        [''md5'', ''sha1'', ''sha256''] world_cached = (Inr (), world_cached)"
    by blast
  from digest_verification_exact [of meta_wrong_sha1 "host True" "''/b/src_cache/a.tar.gz''"
      world_cached empty_digest] sums bad
  have b: "\<exists>e. fst (download_to_cache_loop (host True) meta_wrong_sha1 ''/b/src_cache/a.tar.gz''
               [''md5'', ''sha1'', ''sha256''] world_cached) = Inl e"
    by blast
  from none a sums b show ?thesis by (simp add: list_all_iff)
qed

text \<open>
  The claim's case-insensitive comparison fails on the code: an expected md5 written in
  upper case is rejected although it is, up to case, the digest computed.
\<close>

theorem digest_case_folding_counterexample:
  "lower ''D41D8CD98F00B204E9800998ECF8427E'' = lower ''d41d8cd98f00b204e9800998ecf8427e''
   \<and> fst (download_to_cache (host True) meta_upper_md5 (world0 [])) =
       Inl (RuntimeError ''MD5'' ''d41d8cd98f00b204e9800998ecf8427e''
             (PStr ''D41D8CD98F00B204E9800998ECF8427E''))"
  by code_simp

text \<open>
  C10: a digest key whose value is falsy is not checked.  Alone it always passes, whatever
  the collaborators compute; and in \<open>download_to_cache\<close> the descriptor behaves exactly
  as the one without that key.
\<close>

theorem falsy_digest_is_skipped:
  assumes "tp \<in> set [''md5'', ''sha1'', ''sha256'']" and "m tp = Some v" and "\<not> truthy v"
  shows "download_to_cache_loop env m path [tp] w = (Inr (), w)
         \<and> download_to_cache env m w = download_to_cache env (m(tp := None)) w"
proof
  from assms have falsy: "\<not> truthy (meta_get m tp)"
    by (simp add: meta_get_def)
  then show "download_to_cache_loop env m path [tp] w = (Inr (), w)"
    by simp
  from assms(1) have keys: "(m(tp := None)) ''fn'' = m ''fn''" "(m(tp := None)) ''url'' = m ''url''"
    by auto
  have loops: "\<And>p. download_to_cache_loop env (m(tp := None)) p [''md5'', ''sha1'', ''sha256'']
                  = download_to_cache_loop env m p [''md5'', ''sha1'', ''sha256'']"
    by (rule ext) (rule loop_falsy_as_absent [OF falsy])
  show "download_to_cache env m w = download_to_cache env (m(tp := None)) w"
    by (simp only: download_to_cache_def subscript_def keys loops)
qed

theorem falsy_digest_is_skipped_witness:
  "''md5'' \<in> set [''md5'', ''sha1'', ''sha256''] \<and> meta_empty_md5 ''md5'' = Some (PStr [])
   \<and> \<not> truthy (PStr [])
   \<and> download_to_cache_loop (host True) meta_empty_md5 ''/b/src_cache/a.tar.gz'' [''md5'']
        world_cached = (Inr (), world_cached)
   \<and> download_to_cache (host True) meta_empty_md5 world_cached
       = download_to_cache (host True) (meta_empty_md5(''md5'' := None)) world_cached"
proof -
  have k: "''md5'' \<in> set [''md5'', ''sha1'', ''sha256'']" by simp
  have v: "meta_empty_md5 ''md5'' = Some (PStr [])" by (simp add: meta_empty_md5_def)
  have f: "\<not> truthy (PStr [])" by simp
  from falsy_digest_is_skipped [of "''md5''" meta_empty_md5 "PStr []" "host True"
      "''/b/src_cache/a.tar.gz''" world_cached, OF k v f] k v f
  show ?thesis by blast
qed

section \<open>The value of \<open>provide\<close>\<close>




section \<open>Patching\<close>


















text \<open>
  C9, as the code has it: when the patch tool is not installed, the first entry of a
  non-empty list ends the run before any command is started.  The error is the
  configuration error when that entry's file exists, and the \<open>no such patch\<close> error
  when it does not: \<open>apply_patch\<close> looks for the file first.
\<close>

theorem patch_tool_absent:
  assumes "\<forall>w. find_executable_ext env w ''patch'' = None"
  shows "provide_loop env src_dir recipe_dir (p # ps) w =
           (Inl (SystemExit (if isfile w (join recipe_dir p) then patch_missing env
                             else ''Error: no such patch: '' @ join recipe_dir p)),
            w\<lparr>trace := trace w @ [PrintRepr ''Applying patch: '' (PStr (join recipe_dir p))]\<rparr>)"
  using assms by (simp add: apply_patch_def bind_io_Inl)

theorem patch_tool_absent_witness:
  "fst (provide_loop (host False) ''/b/work'' ''/r'' [''fix.patch'', ''fix1.patch''] world_recipe)
     = Inl (SystemExit (patch_missing (host False)))
   \<and> trace (snd (provide_loop (host False) ''/b/work'' ''/r'' [''fix.patch'', ''fix1.patch'']
               world_recipe))
     = [PrintRepr ''Applying patch: '' (PStr ''/r/fix.patch'')]"
proof -
  have absent: "\<forall>w. find_executable_ext (host False) w ''patch'' = None"
    by (simp add: host_def)
  have there: "isfile world_recipe (join ''/r'' ''fix.patch'')"
    by code_simp
  have path: "join ''/r'' ''fix.patch'' = ''/r/fix.patch''"
    by code_simp
  have t: "trace world_recipe = []"
    by (simp add: world_recipe_def world0_def)
  from patch_tool_absent [OF absent, of "''/b/work''" "''/r''" "''fix.patch''" "[''fix1.patch'']"
      world_recipe] there path t
  show ?thesis by simp
qed

text \<open>
  Without the patch tool and with a first entry that is not there, the error reported is
  the missing patch, not the missing tool.
\<close>

theorem patch_tool_absent_counterexample:
  "find_executable_ext (host False) (world0 []) ''patch'' = None
   \<and> fst (provide (host False) ''/r'' meta_patches True (world0 []))
       = Inl (SystemExit ''Error: no such patch: /r/fix.patch'')
   \<and> fst (provide (host False) ''/r'' meta_patches True (world0 []))
       \<noteq> Inl (SystemExit (patch_missing (host False)))"
  by code_simp

section \<open>Unpacking\<close>

lemma endswith_suffix: "endswith s p \<longleftrightarrow> suffix p s"
proof
  assume "endswith s p"
  then have "p = drop (length s - length p) s" by (simp add: endswith_def)
  then show "suffix p s" by (metis suffix_drop)
next
  assume "suffix p s"
  then obtain zs where "s = zs @ p" by (rule suffixE)
  then show "endswith s p" by (simp add: endswith_def)
qed

lemma suffix_past_char:
  assumes "c \<notin> set p"
  shows "suffix p (xs @ c # ys) \<longleftrightarrow> suffix p ys"
  using assms by (auto simp: suffix_append suffix_Cons)

lemma lower_char_slash [simp]: "lower_char CHR ''/'' = CHR ''/''"
  by (simp add: lower_char_def)

lemma lower_append [simp]: "lower (a @ b) = lower a @ lower b"
  by (simp add: lower_def)

lemma lower_Cons [simp]: "lower (c # s) = lower_char c # lower s"
  by (simp add: lower_def)

lemma SRC_CACHE_shape: "\<exists>a. SRC_CACHE env = a @ ''src_cache''"
  by (simp add: SRC_CACHE_def join_def startswith_def)

lemma join_SRC_CACHE:
  "join (SRC_CACHE env) fn = (if startswith fn ''/'' then fn else SRC_CACHE env @ ''/'' @ fn)"
proof -
  obtain a where a: "SRC_CACHE env = a @ ''src_cache''"
    using SRC_CACHE_shape by blast
  then have "SRC_CACHE env \<noteq> []" and "\<not> endswith (SRC_CACHE env) ''/''"
    by (simp_all add: endswith_def)
  then show ?thesis by (simp add: join_def)
qed

lemma endswith_cache_path:
  assumes "CHR ''/'' \<notin> set p"
  shows "endswith (lower (join (SRC_CACHE env) fn)) p \<longleftrightarrow> endswith (lower fn) p"
  using assms by (simp add: join_SRC_CACHE endswith_suffix suffix_past_char)


lemma bind_io_InrE:
  assumes "bind_io m f w = (Inr b, w')"
  obtains a w1 where "m w = (Inr a, w1)" and "f a w1 = (Inr b, w')"
  using bind_io_InrD [OF assms] by blast

lemma download_to_cache_path:
  assumes "m ''fn'' = Some (PStr fn)" and "download_to_cache env m w = (Inr path, wd)"
  shows "path = join (SRC_CACHE env) fn"
  using assms(2) unfolding download_to_cache_def Let_def
  by (elim bind_io_InrE)
     (clarsimp simp only: assms(1) subscript_def as_str_def ret_def raise_def option.case
        pyval.case prod.inject sum.inject)

text \<open>
  C6: once the archive \<open>fn\<close> is in the cache and the working directory is made, \<open>unpack\<close>
  is decided by the lower-cased file name alone: one of the five tar suffixes gives
  \<open>tar_xf\<close>, else \<open>.zip\<close> gives \<open>unzip\<close>, else the warning is printed and the file is
  handed to \<open>copy2\<close> as it is; \<open>unpack\<close> raises nothing of its own in that last case.
  The code tests the cache path, which ends in a known suffix exactly when \<open>fn\<close> does.
\<close>

theorem unpack_dispatch_on_suffix:
  assumes "m ''fn'' = Some (PStr fn)"
      and "download_to_cache env m w = (Inr path, wd)"
      and "makedirs (WORK_DIR env) wd = (Inr (), wm)"
  shows "path = join (SRC_CACHE env) fn
         \<and> unpack env m w =
            (if \<exists>s \<in> set [''.tar.gz'', ''.tgz'', ''.tar.bz2'', ''.tar.xz'', ''.tar''].
                  endswith (lower fn) s
             then tar_xf env path (WORK_DIR env) wm
             else if endswith (lower fn) ''.zip''
             then unzip env path (WORK_DIR env) wm
             else copy2 env path (WORK_DIR env)
                    (wm\<lparr>trace := trace wm @ [Print
           ''Warning: Unrecognized source format. Source file will be copied to the SRC_DIR'']\<rparr>))"
proof
  show p: "path = join (SRC_CACHE env) fn"
    using assms(1,2) by (rule download_to_cache_path)
  have e: "\<And>s. CHR ''/'' \<notin> set s \<Longrightarrow> endswith (lower path) s = endswith (lower fn) s"
    unfolding p by (rule endswith_cache_path)
  have tar: "list_ex (endswith (lower path))
               [''.tar.gz'', ''.tar.bz2'', ''.tgz'', ''.tar.xz'', ''.tar'']
             \<longleftrightarrow> (\<exists>s \<in> set [''.tar.gz'', ''.tgz'', ''.tar.bz2'', ''.tar.xz'', ''.tar''].
                  endswith (lower fn) s)"
    by (simp add: e) blast
  have zip: "endswith (lower path) ''.zip'' \<longleftrightarrow> endswith (lower fn) ''.zip''"
    by (simp add: e)
  have "unpack env m w =
          (if list_ex (endswith (lower path))
            [''.tar.gz'', ''.tar.bz2'', ''.tgz'', ''.tar.xz'', ''.tar'']
       then tar_xf env path (WORK_DIR env)
       else if endswith (lower path) ''.zip''
       then unzip env path (WORK_DIR env)
       else
         bind_io (emit (Print
           ''Warning: Unrecognized source format. Source file will be copied to the SRC_DIR''))
           (\<lambda>_.
         copy2 env path (WORK_DIR env))) wm"
    using assms(2,3) by (simp only: unpack_def bind_io_Inr)
  then show "unpack env m w =
            (if \<exists>s \<in> set [''.tar.gz'', ''.tgz'', ''.tar.bz2'', ''.tar.xz'', ''.tar''].
                  endswith (lower fn) s
             then tar_xf env path (WORK_DIR env) wm
             else if endswith (lower fn) ''.zip''
             then unzip env path (WORK_DIR env) wm
             else copy2 env path (WORK_DIR env)
                    (wm\<lparr>trace := trace wm @ [Print
           ''Warning: Unrecognized source format. Source file will be copied to the SRC_DIR'']\<rparr>))"
    by (simp only: tar zip bind_emit if_distribR split: if_splits) 
qed


text \<open>
  On the concrete host: \<open>A.TAR.GZ\<close> goes to \<open>tar_xf\<close>; \<open>notes.txt\<close> is copied, with
  the warning, and \<open>unpack\<close> returns normally.
\<close>

theorem unpack_dispatch_on_suffix_witness:
  "unpack (host True) meta_upper_tar (world0 [])
     = tar_xf (host True) ''/b/src_cache/A.TAR.GZ'' (WORK_DIR (host True))
         (snd (makedirs (WORK_DIR (host True))
            (snd (download_to_cache (host True) meta_upper_tar (world0 [])))))
   \<and> fst (unpack (host True) meta_text (world0 [])) = Inr ()
   \<and> added (snd (makedirs (WORK_DIR (host True))
               (snd (download_to_cache (host True) meta_text (world0 [])))))
         (snd (unpack (host True) meta_text (world0 [])))
       = [Print ''Warning: Unrecognized source format. Source file will be copied to the SRC_DIR'',
          Copy2 ''/b/src_cache/notes.txt'' ''/b/work'']"
proof -
  let ?W = "WORK_DIR (host True)"
  let ?warn = "Print
     ''Warning: Unrecognized source format. Source file will be copied to the SRC_DIR''"
  let ?wd = "snd (download_to_cache (host True) meta_upper_tar (world0 []))"
  let ?wm = "snd (makedirs ?W ?wd)"
  have a1: "meta_upper_tar ''fn'' = Some (PStr ''A.TAR.GZ'')"
    by (simp add: meta_upper_tar_def)
  have a2: "download_to_cache (host True) meta_upper_tar (world0 [])
              = (Inr ''/b/src_cache/A.TAR.GZ'', ?wd)"
  proof -
    have "fst (download_to_cache (host True) meta_upper_tar (world0 []))
            = Inr ''/b/src_cache/A.TAR.GZ''"
      by code_simp
    then show ?thesis by (simp add: prod_eq_iff)
  qed
  have a3: "makedirs ?W ?wd = (Inr (), ?wm)"
  proof -
    have "fst (makedirs ?W ?wd) = Inr ()" by code_simp
    then show ?thesis by (simp add: prod_eq_iff)
  qed
  have a4: "\<exists>s \<in> set [''.tar.gz'', ''.tgz'', ''.tar.bz2'', ''.tar.xz'', ''.tar''].
              endswith (lower ''A.TAR.GZ'') s"
    by code_simp
  have tar: "unpack (host True) meta_upper_tar (world0 [])
               = tar_xf (host True) ''/b/src_cache/A.TAR.GZ'' ?W ?wm"
    using unpack_dispatch_on_suffix [OF a1 a2 a3] a4 by (simp only: if_True)
  let ?vd = "snd (download_to_cache (host True) meta_text (world0 []))"
  let ?vm = "snd (makedirs ?W ?vd)"
  have b1: "meta_text ''fn'' = Some (PStr ''notes.txt'')"
    by (simp add: meta_text_def)
  have b2: "download_to_cache (host True) meta_text (world0 [])
              = (Inr ''/b/src_cache/notes.txt'', ?vd)"
  proof -
    have "fst (download_to_cache (host True) meta_text (world0 []))
            = Inr ''/b/src_cache/notes.txt''"
      by code_simp
    then show ?thesis by (simp add: prod_eq_iff)
  qed
  have b3: "makedirs ?W ?vd = (Inr (), ?vm)"
  proof -
    have "fst (makedirs ?W ?vd) = Inr ()" by code_simp
    then show ?thesis by (simp add: prod_eq_iff)
  qed
  have b4: "\<not> (\<exists>s \<in> set [''.tar.gz'', ''.tgz'', ''.tar.bz2'', ''.tar.xz'', ''.tar''].
              endswith (lower ''notes.txt'') s)"
    by code_simp
  have b5: "\<not> endswith (lower ''notes.txt'') ''.zip''"
    by code_simp
  have copy: "unpack (host True) meta_text (world0 [])
               = copy2 (host True) ''/b/src_cache/notes.txt'' ?W
                   (?vm\<lparr>trace := trace ?vm @ [?warn]\<rparr>)"
    using unpack_dispatch_on_suffix [OF b1 b2 b3] b4 b5 by (simp only: if_False)
  have c1: "fst (copy2 (host True) ''/b/src_cache/notes.txt'' ?W
                   (?vm\<lparr>trace := trace ?vm @ [?warn]\<rparr>)) = Inr ()"
    by code_simp
  have c2: "added ?vm (snd (copy2 (host True) ''/b/src_cache/notes.txt'' ?W
                   (?vm\<lparr>trace := trace ?vm @ [?warn]\<rparr>)))
              = [?warn, Copy2 ''/b/src_cache/notes.txt'' ''/b/work'']"
    by code_simp
  from tar copy c1 c2 show ?thesis by simp
qed


section \<open>Checkouts\<close>

lemma performsI:
  assumes "\<And>w r w'. k w = (r, w') \<Longrightarrow>
     \<exists>es. trace w' = trace w @ es \<and>
           (case r of Inl e \<Rightarrow> prefix (actions es) xs | Inr a \<Rightarrow> actions es = xs)"
  shows "performs k xs"
  using assms by (simp add: performs_def)


lemma actions_append [simp]: "actions (xs @ ys) = actions xs @ actions ys"
  by (simp add: actions_def)

lemma actions_Nil [simp]: "actions [] = []"
  by (simp add: actions_def)

lemma actions_Cons [simp]: "actions (e # es) = (if is_action e then e # actions es else actions es)"
  by (simp add: actions_def)





lemma performs_reads: "performs (reads g) []"
  by (rule performsI) auto
























section \<open>The working directory\<close>

lemma map_of_filter_key:
  "map_of (filter (\<lambda>(q, n). P q) f) k = (if P k then map_of f k else None)"
  by (induction f) auto

lemma lookup_rm:
  "lookup (filter (\<lambda>(q, n). \<not> prefix k q) f) q =
     (if prefix k q \<and> q \<noteq> [] then None else lookup f q)"
  by (simp add: lookup_def map_of_filter_key)

lemma rm_rf_apply:
  "rm_rf p w =
     (Inr (), w\<lparr>fs := filter (\<lambda>(q, n). \<not> prefix (resolve (cwd w) p) q) (fs w),
                trace := trace w @ [RmRf p]\<rparr>)"
  by (simp add: rm_rf_def)

lemma split_on_nonempty [simp]: "split_on c s \<noteq> []"
  by (induction s) (auto split: list.splits)

lemma split_on_append:
  "split_on c (a @ c # b) = split_on c a @ split_on c b"
  by (induction a) (auto split: list.splits)

lemma norm_append: "norm acc (xs @ ys) = norm (norm acc xs) ys"
  by (induction xs arbitrary: acc) auto

lemma resolve_work: "\<exists>k. resolve cur (join a ''work'') = k @ [''work'']"
proof -
  have shape: "join a ''work'' = ''work'' \<or> (\<exists>b. join a ''work'' = b @ CHR ''/'' # ''work'')"
  proof (cases "a = []")
    case True
    then show ?thesis by (simp add: join_def startswith_def)
  next
    case False
    show ?thesis
    proof (cases "endswith a ''/''")
      case True
      then obtain b where "a = b @ ''/''"
        unfolding endswith_suffix by (rule suffixE)
      with False True show ?thesis by (simp add: join_def startswith_def)
    next
      case False
      with \<open>a \<noteq> []\<close> show ?thesis by (simp add: join_def startswith_def)
    qed
  qed
  then show ?thesis
  proof
    assume "join a ''work'' = ''work''"
    then show ?thesis by (simp add: resolve_def startswith_def)
  next
    assume "\<exists>b. join a ''work'' = b @ CHR ''/'' # ''work''"
    then obtain b where b: "join a ''work'' = b @ CHR ''/'' # ''work''" by blast
    have "split_on CHR ''/'' (b @ CHR ''/'' # ''work'') = split_on CHR ''/'' b @ [''work'']"
      by (simp add: split_on_append)
    then show ?thesis
      unfolding resolve_def b by (simp add: norm_append)
  qed
qed

lemma WORK_DIR_not_root: "resolve cur (WORK_DIR env) \<noteq> []"
  using resolve_work [of cur "croot env"] by (auto simp: WORK_DIR_def)


lemma makedirs_fresh:
  assumes "lookup (fs w) (resolve (cwd w) p) = None"
      and "\<forall>q \<in> set (prefixes (resolve (cwd w) p)). \<forall>c. lookup (fs w) q \<noteq> Some (File c)"
  shows "makedirs p w =
           (Inr (), w\<lparr>trace := trace w @ [MkDirs p],
                      fs := map (\<lambda>q. (q, Dir))
                              (filter (\<lambda>q. lookup (fs w) q = None) (prefixes (resolve (cwd w) p)))
                            @ fs w\<rparr>)"
proof -
  have "\<not> list_ex (\<lambda>q. case lookup (fs w) q of Some (File c) \<Rightarrow> True | _ \<Rightarrow> False)
           (prefixes (resolve (cwd w) p))"
    using assms(2) by (auto simp: list_ex_iff split: option.splits node.splits)
  with assms(1) show ?thesis
    by (simp add: makedirs_def Let_def)
qed

lemma map_of_dirs:
  "map_of (map (\<lambda>q. (q, Dir)) xs) k = (if k \<in> set xs then Some Dir else None)"
  by (induction xs) auto

lemma children_empty:
  assumes "\<forall>(q, n) \<in> set f. \<not> (q \<noteq> [] \<and> butlast q = k)"
  shows "children f k = []"
proof -
  have "filter (\<lambda>(q, n). q \<noteq> [] \<and> butlast q = k) f = []"
    using assms by (auto simp: filter_empty_conv)
  then show ?thesis by (simp add: children_def)
qed

lemma butlast_prefix: "q \<noteq> [] \<Longrightarrow> butlast q = k \<Longrightarrow> strict_prefix k q"
  by (metis append_butlast_last_id prefixI strict_prefixI' strict_prefix_def snoc_eq_iff_butlast)

lemma reset_then_make:
  fixes w :: "'x world" and env :: "'x env"
  assumes k_def: "k = resolve (cwd w) (WORK_DIR env)"
      and F_def: "F = filter (\<lambda>(q, n). \<not> prefix k q) (fs w)"
      and w2_def: "w2 = w\<lparr>fs := map (\<lambda>q. (q, Dir))
                                  (filter (\<lambda>q. lookup F q = None) (prefixes k)) @ F,
                    trace := trace w @ [RmRf (WORK_DIR env), MkDirs (WORK_DIR env)]\<rparr>"
      and clear: "\<forall>q. strict_prefix q k \<longrightarrow> (\<forall>c. lookup (fs w) q \<noteq> Some (File c))"
  shows "bind_io (rm_rf (WORK_DIR env)) (\<lambda>_. makedirs (WORK_DIR env)) w = (Inr (), w2)"
    and "isdir w2 (WORK_DIR env)"
    and "children (fs w2) (resolve (cwd w2) (WORK_DIR env)) = []"
proof -
  let ?W = "WORK_DIR env"
  let ?w1 = "w\<lparr>fs := F, trace := trace w @ [RmRf ?W]\<rparr>"
  have k: "k \<noteq> []"
    unfolding k_def by (rule WORK_DIR_not_root)
  have gone: "lookup F k = None"
    unfolding F_def using k by (simp add: lookup_rm)
  have nofile: "\<forall>q \<in> set (prefixes k). \<forall>c. lookup F q \<noteq> Some (File c)"
  proof (intro ballI allI)
    fix q c
    assume "q \<in> set (prefixes k)"
    then have "prefix q k" by (simp add: in_set_prefixes)
    show "lookup F q \<noteq> Some (File c)"
    proof (cases "q = k")
      case True
      with gone show ?thesis by simp
    next
      case False
      with \<open>prefix q k\<close> have sp: "strict_prefix q k" by (simp add: strict_prefix_def)
      then have "\<not> prefix k q" by (auto simp: strict_prefix_def)
      then have "lookup F q = lookup (fs w) q"
        unfolding F_def by (simp add: lookup_rm)
      with clear sp show ?thesis by simp
    qed
  qed
  have r: "rm_rf ?W w = (Inr (), ?w1)"
    unfolding F_def k_def by (simp add: rm_rf_apply)
  have m: "makedirs ?W ?w1 = (Inr (), w2)"
    using makedirs_fresh [of ?w1 ?W] gone nofile
    unfolding w2_def k_def by simp
  from r m show "bind_io (rm_rf ?W) (\<lambda>_. makedirs ?W) w = (Inr (), w2)"
    by (simp add: bind_io_def)
  have "k \<in> set (filter (\<lambda>q. lookup F q = None) (prefixes k))"
    using gone by (simp add: in_set_prefixes)
  then have "map_of (map (\<lambda>q. (q, Dir)) (filter (\<lambda>q. lookup F q = None) (prefixes k)) @ F) k
               = Some Dir"
    by (simp add: map_of_dirs)
  with k show "isdir w2 ?W"
    unfolding w2_def isdir_def k_def by (simp add: lookup_def)
  have "False" if mem: "(q, n) \<in> set (fs w2)" and "q \<noteq> []" and "butlast q = k" for q n
  proof -
    from that have sp: "strict_prefix k q" by (simp add: butlast_prefix)
    from mem have "prefix q k \<or> (q, n) \<in> set F"
      unfolding w2_def by (auto simp: in_set_prefixes)
    then show False
    proof
      assume "prefix q k"
      with sp show False by (auto simp: strict_prefix_def)
    next
      assume "(q, n) \<in> set F"
      then have "\<not> prefix k q" unfolding F_def by auto
      with sp show False by (simp add: strict_prefix_def)
    qed
  qed
  then have "\<forall>(q, n) \<in> set (fs w2). \<not> (q \<noteq> [] \<and> butlast q = k)"
    by blast
  then have "children (fs w2) k = []" by (rule children_empty)
  then show "children (fs w2) (resolve (cwd w2) ?W) = []"
    unfolding k_def w2_def by simp
qed


lemma extends_Pair [extends_intro]: "extends (Pair r)"
  by (simp add: extends_def)

lemma extends_ret [extends_intro]: "extends (ret a)"
  by (simp add: extends_def)

lemma extends_raise [extends_intro]: "extends (raise e)"
  by (simp add: extends_def)

lemma extends_reads [extends_intro]: "extends (reads g)"
  by (simp add: extends_def)

lemma extends_emit [extends_intro]: "extends (emit e)"
  by (simp add: extends_def)

lemma extends_extern [extends_intro]: "extends (extern e f)"
  by (simp add: extends_def extern_def split: prod.splits)

lemma extends_assert [extends_intro]: "extends (assert_io P)"
  by (simp add: extends_def assert_io_def)

lemma extends_makedirs [extends_intro]: "extends (makedirs p)"
  by (simp add: extends_def makedirs_def Let_def)

lemma extends_rm_rf [extends_intro]: "extends (rm_rf p)"
  by (simp add: extends_def rm_rf_def)

lemma extends_listdir [extends_intro]: "extends (listdir p)"
  by (simp add: extends_def listdir_def)

lemma extends_hashsum_file [extends_intro]: "extends (hashsum_file env path tp)"
  by (simp add: extends_def)

lemma extends_find_executable [extends_intro]: "extends (find_executable env name)"
  by (simp add: extends_def)

lemma extends_subscript [extends_intro]: "extends (subscript m k)"
  by (simp add: extends_def subscript_def split: option.splits)

lemma extends_as_str [extends_intro]: "extends (as_str v)"
  by (simp add: extends_def as_str_def split: pyval.splits)

lemma extends_py_iter [extends_intro]: "extends (py_iter v)"
  by (simp add: extends_def py_iter_def split: pyval.splits)

lemma extends_bind [extends_intro]:
  assumes "extends m" and "\<And>a. extends (f a)"
  shows "extends (bind_io m f)"
proof -
  have "prefix (trace w) (trace (snd (bind_io m f w)))" for w
  proof (cases "m w")
    case (Pair r w1)
    from assms(1) have p1: "prefix (trace w) (trace (snd (m w)))"
      by (simp add: extends_def)
    show ?thesis
    proof (cases r)
      case (Inl e)
      with Pair p1 show ?thesis by (simp add: bind_io_def)
    next
      case (Inr a)
      from assms(2) [of a] have "prefix (trace w1) (trace (snd (f a w1)))"
        by (simp add: extends_def)
      with Pair Inr p1 show ?thesis
        by (auto simp: bind_io_def intro: prefix_order.trans)
    qed
  qed
  then show ?thesis by (simp add: extends_def)
qed

lemma extends_if [extends_intro]:
  "extends a \<Longrightarrow> extends b \<Longrightarrow> extends (if c then a else b)"
  by simp

lemma extends_case_option [extends_intro]:
  "extends a \<Longrightarrow> (\<And>x. extends (f x)) \<Longrightarrow> extends (case x of None \<Rightarrow> a | Some y \<Rightarrow> f y)"
  by (cases x) simp_all

lemma extends_case_prod [extends_intro]:
  "(\<And>a b. extends (f a b)) \<Longrightarrow> extends (case x of (a, b) \<Rightarrow> f a b)"
  by (cases x) simp

lemma extends_tools [extends_intro]:
  "extends (download env url path)" "extends (tar_xf env src dst)" "extends (unzip env src dst)"
  "extends (copy2 env src dst)" "extends (copytree env src dst ign)"
  "extends (check_call env argv dir)" "extends (popen_communicate env args dir)"
  by (simp_all add: download_def tar_xf_def unzip_def copy2_def copytree_def check_call_def
      popen_communicate_def extends_extern)

lemma extends_ensure_dir [extends_intro]: "extends (ensure_dir p)"
  unfolding ensure_dir_def by (intro extends_intro)

lemma extends_get_dir [extends_intro]: "extends (get_dir env)"
  unfolding get_dir_def Let_def by (intro extends_intro)

lemma extends_download_to_cache_loop [extends_intro]:
  "extends (download_to_cache_loop env m path tps)"
  by (induction tps) (auto intro!: extends_intro)

lemma extends_download_to_cache [extends_intro]: "extends (download_to_cache env m)"
  unfolding download_to_cache_def Let_def by (intro extends_intro)

lemma extends_unpack [extends_intro]: "extends (unpack env m)"
  unfolding unpack_def by (intro extends_intro)

lemma extends_git_info_loop [extends_intro]: "extends (git_info_loop env cmds)"
proof (induction cmds)
  case Nil
  show ?case by (simp add: extends_Pair)
next
  case (Cons c cmds)
  obtain cmd check_error where c: "c = (cmd, check_error)" by (cases c)
  show ?case
    unfolding c git_info_loop.simps by (intro extends_intro Cons.IH)
qed

lemma extends_git_info [extends_intro]: "extends (git_info env)"
  unfolding git_info_def by (intro extends_intro)

lemma extends_git_source [extends_intro]: "extends (git_source env m)"
  unfolding git_source_def Let_def by (intro extends_intro)

lemma extends_hg_source [extends_intro]: "extends (hg_source env m)"
  unfolding hg_source_def Let_def by (intro extends_intro)

lemma extends_svn_source [extends_intro]: "extends (svn_source env m)"
  unfolding svn_source_def Let_def by (intro extends_intro)

lemma extends_apply_patch [extends_intro]: "extends (apply_patch env sd path)"
  unfolding apply_patch_def by (intro extends_intro)

lemma extends_provide_loop [extends_intro]: "extends (provide_loop env sd rd ps)"
  by (induction ps) (auto intro!: extends_intro)

lemma extends_provide_patching [extends_intro]: "extends (provide_patching env rd m patch)"
  unfolding provide_patching_def by (intro extends_intro)


lemma get_dir_empty:
  assumes "isdir w (WORK_DIR env)"
      and "children (fs w) (resolve (cwd w) (WORK_DIR env)) = []"
  shows "get_dir env w = (Inr (WORK_DIR env), w)"
proof -
  have e: "ensure_dir (WORK_DIR env) w = (Inr (), w)"
    using assms(1) by (simp add: ensure_dir_def)
  have l: "listdir (WORK_DIR env) w = (Inr [], w)"
    using assms by (simp add: listdir_def)
  show ?thesis
    by (simp add: get_dir_def bind_io_def e l)
qed

lemma provide_patching_nothing:
  assumes "\<not> patch \<or> m ''patches'' = None"
      and "isdir w (WORK_DIR env)"
      and "children (fs w) (resolve (cwd w) (WORK_DIR env)) = []"
  shows "provide_patching env rd m patch w = (Inr (), w)"
proof (cases patch)
  case False
  then show ?thesis by (simp add: provide_patching_def)
next
  case True
  with assms(1) have "m ''patches'' = None" by simp
  with True get_dir_empty [OF assms(2,3)] show ?thesis
    by (simp add: provide_patching_def py_iter_def bind_io_Inr)
qed


lemma provide_no_source:
  assumes "m ''fn'' = None" "m ''git_url'' = None" "m ''hg_url'' = None" "m ''svn_url'' = None"
  shows "provide env rd m patch =
           bind_io (rm_rf (WORK_DIR env)) (\<lambda>_.
           bind_io (makedirs (WORK_DIR env)) (\<lambda>_.
           bind_io (provide_patching env rd m patch) (\<lambda>_. ret PNone)))"
  using assms by (simp add: provide_def)

lemma no_source_outcome:
  fixes w :: "'x world" and env :: "'x env"
  assumes k_def: "k = resolve (cwd w) (WORK_DIR env)"
      and F_def: "F = filter (\<lambda>(q, n). \<not> prefix k q) (fs w)"
      and w2_def: "w2 = w\<lparr>fs := map (\<lambda>q. (q, Dir))
                                  (filter (\<lambda>q. lookup F q = None) (prefixes k)) @ F,
                    trace := trace w @ [RmRf (WORK_DIR env), MkDirs (WORK_DIR env)]\<rparr>"
      and keys: "m ''fn'' = None" "m ''git_url'' = None" "m ''hg_url'' = None"
                "m ''svn_url'' = None"
      and nopatch: "\<not> patch \<or> m ''patches'' = None"
      and clear: "\<forall>q. strict_prefix q k \<longrightarrow> (\<forall>c. lookup (fs w) q \<noteq> Some (File c))"
  shows "provide env rd m patch w = (Inr PNone, w2)
         \<and> isdir w2 (WORK_DIR env)
         \<and> children (fs w2) (resolve (cwd w2) (WORK_DIR env)) = []"
proof (intro conjI)
  note rm = reset_then_make [OF k_def F_def w2_def clear]
  show d: "isdir w2 (WORK_DIR env)" by (rule rm(2))
  show c: "children (fs w2) (resolve (cwd w2) (WORK_DIR env)) = []" by (rule rm(3))
  have "provide env rd m patch w =
          bind_io (bind_io (rm_rf (WORK_DIR env)) (\<lambda>_. makedirs (WORK_DIR env))) (\<lambda>_.
          bind_io (provide_patching env rd m patch) (\<lambda>_. ret PNone)) w"
    by (simp add: provide_no_source [OF keys] bind_io_assoc)
  also have "\<dots> = bind_io (provide_patching env rd m patch) (\<lambda>_. ret PNone) w2"
    using rm(1) by (rule bind_io_Inr)
  also have "\<dots> = (Inr PNone, w2)"
    using provide_patching_nothing [where patch = patch and m = m and w = w2 and env = env
        and rd = rd, OF nopatch d c]
    by (simp add: bind_io_Inr)
  finally show "provide env rd m patch w = (Inr PNone, w2)" .
qed



lemma bind_ret_fun: "bind_io (ret a) f = f a"
  by (rule ext) simp

lemma listdir_empty:
  "isdir w p \<Longrightarrow> children (fs w) (resolve (cwd w) p) = [] \<Longrightarrow> listdir p w = (Inr [], w)"
  by (simp add: listdir_def)

section \<open>Dispatch\<close>

text \<open>
  C3: \<open>provide\<close> is the reset, then one acquisition, then the patching step, and the
  acquisition is chosen by the first key present among \<open>fn\<close>, \<open>git_url\<close>, \<open>hg_url\<close> and
  \<open>svn_url\<close>, in that order: \<open>unpack\<close>, \<open>git_source\<close>, \<open>hg_source\<close>, \<open>svn_source\<close>,
  and \<open>os.makedirs\<close> of the working directory when none is there.  In that last case,
  with no patches to apply and no regular file in the way of the working directory's path,
  \<open>provide\<close> returns normally, having only removed and made the working directory, which
  then exists and is empty.
\<close>

theorem provide_dispatch:
  "(''fn'' \<in> dom m \<longrightarrow>
      provide env rd m patch =
        bind_io (rm_rf (WORK_DIR env)) (\<lambda>_.
        bind_io (unpack env m) (\<lambda>_.
        bind_io (provide_patching env rd m patch) (\<lambda>_. ret PNone))))
   \<and> (''fn'' \<notin> dom m \<and> ''git_url'' \<in> dom m \<longrightarrow>
      provide env rd m patch =
        bind_io (rm_rf (WORK_DIR env)) (\<lambda>_.
        bind_io (git_source env m) (\<lambda>_.
        bind_io (provide_patching env rd m patch) (\<lambda>_. ret PNone))))
   \<and> (''fn'' \<notin> dom m \<and> ''git_url'' \<notin> dom m \<and> ''hg_url'' \<in> dom m \<longrightarrow>
      provide env rd m patch =
        bind_io (rm_rf (WORK_DIR env)) (\<lambda>_.
        bind_io (hg_source env m) (\<lambda>_.
        bind_io (provide_patching env rd m patch) (\<lambda>_. ret PNone))))
   \<and> (''fn'' \<notin> dom m \<and> ''git_url'' \<notin> dom m \<and> ''hg_url'' \<notin> dom m \<and> ''svn_url'' \<in> dom m \<longrightarrow>
      provide env rd m patch =
        bind_io (rm_rf (WORK_DIR env)) (\<lambda>_.
        bind_io (svn_source env m) (\<lambda>_.
        bind_io (provide_patching env rd m patch) (\<lambda>_. ret PNone))))
   \<and> (''fn'' \<notin> dom m \<and> ''git_url'' \<notin> dom m \<and> ''hg_url'' \<notin> dom m \<and> ''svn_url'' \<notin> dom m \<longrightarrow>
      provide env rd m patch =
        bind_io (rm_rf (WORK_DIR env)) (\<lambda>_.
        bind_io (makedirs (WORK_DIR env)) (\<lambda>_.
        bind_io (provide_patching env rd m patch) (\<lambda>_. ret PNone))))
   \<and> (''fn'' \<notin> dom m \<and> ''git_url'' \<notin> dom m \<and> ''hg_url'' \<notin> dom m \<and> ''svn_url'' \<notin> dom m
      \<and> ''patches'' \<notin> dom m
      \<and> (\<forall>q. strict_prefix q (resolve (cwd w) (WORK_DIR env)) \<longrightarrow>
               (\<forall>c. lookup (fs w) q \<noteq> Some (File c))) \<longrightarrow>
      (\<exists>w'. provide env rd m patch w = (Inr PNone, w')
            \<and> trace w' = trace w @ [RmRf (WORK_DIR env), MkDirs (WORK_DIR env)]
            \<and> isdir w' (WORK_DIR env)
            \<and> listdir (WORK_DIR env) w' = (Inr [], w')))"
proof (intro conjI impI)
  assume "''fn'' \<in> dom m"
  then show "provide env rd m patch =
        bind_io (rm_rf (WORK_DIR env)) (\<lambda>_.
        bind_io (unpack env m) (\<lambda>_.
        bind_io (provide_patching env rd m patch) (\<lambda>_. ret PNone)))"
    by (auto simp: provide_def)
next
  assume "''fn'' \<notin> dom m \<and> ''git_url'' \<in> dom m"
  then show "provide env rd m patch =
        bind_io (rm_rf (WORK_DIR env)) (\<lambda>_.
        bind_io (git_source env m) (\<lambda>_.
        bind_io (provide_patching env rd m patch) (\<lambda>_. ret PNone)))"
    by (auto simp: provide_def bind_io_assoc bind_ret_fun)
next
  assume "''fn'' \<notin> dom m \<and> ''git_url'' \<notin> dom m \<and> ''hg_url'' \<in> dom m"
  then show "provide env rd m patch =
        bind_io (rm_rf (WORK_DIR env)) (\<lambda>_.
        bind_io (hg_source env m) (\<lambda>_.
        bind_io (provide_patching env rd m patch) (\<lambda>_. ret PNone)))"
    by (auto simp: provide_def bind_io_assoc bind_ret_fun)
next
  assume "''fn'' \<notin> dom m \<and> ''git_url'' \<notin> dom m \<and> ''hg_url'' \<notin> dom m \<and> ''svn_url'' \<in> dom m"
  then show "provide env rd m patch =
        bind_io (rm_rf (WORK_DIR env)) (\<lambda>_.
        bind_io (svn_source env m) (\<lambda>_.
        bind_io (provide_patching env rd m patch) (\<lambda>_. ret PNone)))"
    by (auto simp: provide_def bind_io_assoc bind_ret_fun)
next
  assume "''fn'' \<notin> dom m \<and> ''git_url'' \<notin> dom m \<and> ''hg_url'' \<notin> dom m \<and> ''svn_url'' \<notin> dom m"
  then show "provide env rd m patch =
        bind_io (rm_rf (WORK_DIR env)) (\<lambda>_.
        bind_io (makedirs (WORK_DIR env)) (\<lambda>_.
        bind_io (provide_patching env rd m patch) (\<lambda>_. ret PNone)))"
    by (auto simp: provide_def)
next
  let ?k = "resolve (cwd w) (WORK_DIR env)"
  let ?F = "filter (\<lambda>(q, n). \<not> prefix ?k q) (fs w)"
  let ?w2 = "w\<lparr>fs := map (\<lambda>q. (q, Dir)) (filter (\<lambda>q. lookup ?F q = None) (prefixes ?k)) @ ?F,
                trace := trace w @ [RmRf (WORK_DIR env), MkDirs (WORK_DIR env)]\<rparr>"
  assume h: "''fn'' \<notin> dom m \<and> ''git_url'' \<notin> dom m \<and> ''hg_url'' \<notin> dom m \<and> ''svn_url'' \<notin> dom m
      \<and> ''patches'' \<notin> dom m
      \<and> (\<forall>q. strict_prefix q ?k \<longrightarrow> (\<forall>c. lookup (fs w) q \<noteq> Some (File c)))"
  then have keys: "m ''fn'' = None" "m ''git_url'' = None" "m ''hg_url'' = None"
      "m ''svn_url'' = None" and nopatch: "\<not> patch \<or> m ''patches'' = None"
    by auto
  from h have clear: "\<forall>q. strict_prefix q ?k \<longrightarrow> (\<forall>c. lookup (fs w) q \<noteq> Some (File c))"
    by blast
  have out: "provide env rd m patch w = (Inr PNone, ?w2)
         \<and> isdir ?w2 (WORK_DIR env)
         \<and> children (fs ?w2) (resolve (cwd ?w2) (WORK_DIR env)) = []"
    using refl refl refl keys nopatch clear by (rule no_source_outcome)
  then have "provide env rd m patch w = (Inr PNone, ?w2)" by blast
  moreover have "trace ?w2 = trace w @ [RmRf (WORK_DIR env), MkDirs (WORK_DIR env)]" by simp
  moreover from out have "isdir ?w2 (WORK_DIR env)" by blast
  moreover from out have "listdir (WORK_DIR env) ?w2 = (Inr [], ?w2)"
    by (blast intro: listdir_empty)
  ultimately show "\<exists>w'. provide env rd m patch w = (Inr PNone, w')
            \<and> trace w' = trace w @ [RmRf (WORK_DIR env), MkDirs (WORK_DIR env)]
            \<and> isdir w' (WORK_DIR env)
            \<and> listdir (WORK_DIR env) w' = (Inr [], w')"
    by blast
qed

lemma world_stale_clear:
  "\<forall>q. strict_prefix q (resolve (cwd world_stale) (WORK_DIR (host True))) \<longrightarrow>
         (\<forall>c. lookup (fs world_stale) q \<noteq> Some (File c))"
proof -
  have k: "resolve (cwd world_stale) (WORK_DIR (host True)) = [''b'', ''work'']"
    by code_simp
  have "q = [] \<or> q = [''b'']" if "strict_prefix q [''b'', ''work'']" for q :: "string list"
    using that by (auto simp: strict_prefix_def prefix_Cons)
  moreover have "lookup (fs world_stale) [] = Some Dir" "lookup (fs world_stale) [''b''] = Some Dir"
    by (simp_all add: lookup_def world_stale_def world0_def)
  ultimately have "lookup (fs world_stale) q \<noteq> Some (File c)"
    if "strict_prefix q [''b'', ''work'']" for q :: "string list" and c
    using that by fastforce
  then show ?thesis
    unfolding k by blast
qed

theorem provide_dispatch_witness:
  "provide (host True) ''/r'' meta_archive True =
        bind_io (rm_rf (WORK_DIR (host True))) (\<lambda>_.
        bind_io (unpack (host True) meta_archive) (\<lambda>_.
        bind_io (provide_patching (host True) ''/r'' meta_archive True) (\<lambda>_. ret PNone)))
   \<and> provide (host True) ''.'' meta_main True =
        bind_io (rm_rf (WORK_DIR (host True))) (\<lambda>_.
        bind_io (git_source (host True) meta_main) (\<lambda>_.
        bind_io (provide_patching (host True) ''.'' meta_main True) (\<lambda>_. ret PNone)))
   \<and> provide (host True) ''/r'' meta_hg True =
        bind_io (rm_rf (WORK_DIR (host True))) (\<lambda>_.
        bind_io (hg_source (host True) meta_hg) (\<lambda>_.
        bind_io (provide_patching (host True) ''/r'' meta_hg True) (\<lambda>_. ret PNone)))
   \<and> provide (host True) ''/r'' meta_svn True =
        bind_io (rm_rf (WORK_DIR (host True))) (\<lambda>_.
        bind_io (svn_source (host True) meta_svn) (\<lambda>_.
        bind_io (provide_patching (host True) ''/r'' meta_svn True) (\<lambda>_. ret PNone)))
   \<and> provide (host True) ''/r'' Map.empty True =
        bind_io (rm_rf (WORK_DIR (host True))) (\<lambda>_.
        bind_io (makedirs (WORK_DIR (host True))) (\<lambda>_.
        bind_io (provide_patching (host True) ''/r'' Map.empty True) (\<lambda>_. ret PNone)))
   \<and> (\<exists>w'. provide (host True) ''/r'' Map.empty True world_stale = (Inr PNone, w')
            \<and> trace w' = trace world_stale
                  @ [RmRf (WORK_DIR (host True)), MkDirs (WORK_DIR (host True))]
            \<and> isdir w' (WORK_DIR (host True))
            \<and> listdir (WORK_DIR (host True)) w' = (Inr [], w'))"
proof (intro conjI)
  have "''fn'' \<in> dom meta_archive" by (simp add: meta_archive_def)
  with provide_dispatch [of meta_archive "host True" "''/r''" True]
  show "provide (host True) ''/r'' meta_archive True =
        bind_io (rm_rf (WORK_DIR (host True))) (\<lambda>_.
        bind_io (unpack (host True) meta_archive) (\<lambda>_.
        bind_io (provide_patching (host True) ''/r'' meta_archive True) (\<lambda>_. ret PNone)))"
    by blast
  have "''fn'' \<notin> dom meta_main \<and> ''git_url'' \<in> dom meta_main" by (simp add: meta_main_def)
  with provide_dispatch [of meta_main "host True" "''.''" True]
  show "provide (host True) ''.'' meta_main True =
        bind_io (rm_rf (WORK_DIR (host True))) (\<lambda>_.
        bind_io (git_source (host True) meta_main) (\<lambda>_.
        bind_io (provide_patching (host True) ''.'' meta_main True) (\<lambda>_. ret PNone)))"
    by blast
  have "''fn'' \<notin> dom meta_hg \<and> ''git_url'' \<notin> dom meta_hg \<and> ''hg_url'' \<in> dom meta_hg"
    by (simp add: meta_hg_def)
  with provide_dispatch [of meta_hg "host True" "''/r''" True]
  show "provide (host True) ''/r'' meta_hg True =
        bind_io (rm_rf (WORK_DIR (host True))) (\<lambda>_.
        bind_io (hg_source (host True) meta_hg) (\<lambda>_.
        bind_io (provide_patching (host True) ''/r'' meta_hg True) (\<lambda>_. ret PNone)))"
    by blast
  have "''fn'' \<notin> dom meta_svn \<and> ''git_url'' \<notin> dom meta_svn \<and> ''hg_url'' \<notin> dom meta_svn
        \<and> ''svn_url'' \<in> dom meta_svn"
    by (simp add: meta_svn_def)
  with provide_dispatch [of meta_svn "host True" "''/r''" True]
  show "provide (host True) ''/r'' meta_svn True =
        bind_io (rm_rf (WORK_DIR (host True))) (\<lambda>_.
        bind_io (svn_source (host True) meta_svn) (\<lambda>_.
        bind_io (provide_patching (host True) ''/r'' meta_svn True) (\<lambda>_. ret PNone)))"
    by blast
  have none: "''fn'' \<notin> dom (Map.empty :: meta) \<and> ''git_url'' \<notin> dom (Map.empty :: meta)
        \<and> ''hg_url'' \<notin> dom (Map.empty :: meta) \<and> ''svn_url'' \<notin> dom (Map.empty :: meta)"
    by simp
  with provide_dispatch [of Map.empty "host True" "''/r''" True]
  show "provide (host True) ''/r'' Map.empty True =
        bind_io (rm_rf (WORK_DIR (host True))) (\<lambda>_.
        bind_io (makedirs (WORK_DIR (host True))) (\<lambda>_.
        bind_io (provide_patching (host True) ''/r'' Map.empty True) (\<lambda>_. ret PNone)))"
    by blast
  have "''patches'' \<notin> dom (Map.empty :: meta)" by simp
  with provide_dispatch [of Map.empty "host True" "''/r''" True world_stale] none
    world_stale_clear
  show "\<exists>w'. provide (host True) ''/r'' Map.empty True world_stale = (Inr PNone, w')
            \<and> trace w' = trace world_stale
                  @ [RmRf (WORK_DIR (host True)), MkDirs (WORK_DIR (host True))]
            \<and> isdir w' (WORK_DIR (host True))
            \<and> listdir (WORK_DIR (host True)) w' = (Inr [], w')"
    by blast
qed

section \<open>The reset\<close>






end
